theory Spec2Isabelle
  imports Main
begin

section \<open>FirmwareUpdateChecker: the extension controller\<close>

text \<open>
  A shallow embedding of \<^verbatim>\<open>plugins/FirmwareUpdateChecker/FirmwareUpdateChecker.py\<close>.
  The attributes of the extension object are a record; every call the extension makes
  into the host (preferences, signals, logger, desktop services, job queue) is appended
  to a trace of host calls, in program order. A Python exception is the outcome
  \<open>Raised\<close>; the state returned with it is the state at the point of the raise.
\<close>

subsection \<open>Data of the collaborators\<close>

type_synonym machine_id = string

text \<open>
  Modelled from the spec: the class \<^verbatim>\<open>FirmwareUpdateCheckerLookup\<close>
  (\<^verbatim>\<open>FirmwareUpdateCheckerLookup.py\<close> is not among the sources). The spec's data model:
  "Lookup table: static mapping from machine id to firmware metadata (latest version,
  redirect/download URL), loaded once from a bundled resource file."
\<close>

record firmware_metadata =
  latest_version :: string
  redirect_url :: string

record lookup =
  table :: "(machine_id \<times> firmware_metadata) list"

definition getMachineIds :: "lookup \<Rightarrow> machine_id list" where
  "getMachineIds l = map fst (table l)"

definition getRedirectUserFor :: "lookup \<Rightarrow> machine_id \<Rightarrow> string option" where
  "getRedirectUserFor l machine_id = map_option redirect_url (map_of (table l) machine_id)"

text \<open>
  A container of the host's registry, reduced to what the extension reads:
  \<open>is_GlobalStack\<close> is \<^verbatim>\<open>isinstance(container, GlobalStack)\<close>, \<open>definition_name\<close> is
  \<^verbatim>\<open>container.definition.getName()\<close>; \<open>container_id\<close> is the identity of the machine,
  which the extension never reads.
\<close>

record container =
  container_id :: string
  is_GlobalStack :: bool
  definition_name :: string

text \<open>The notification message, reduced to \<^verbatim>\<open>message.getMachineId()\<close>.\<close>

record message =
  getMachineId :: machine_id

datatype slot = Slot_onContainerAdded | Slot_onPluginsLoaded | Slot_onJobFinished
  | Slot_onActionTriggered

text \<open>The arguments \<^verbatim>\<open>FirmwareUpdateCheckerJob\<close> is constructed with (lines 96-98).\<close>

record job =
  job_container :: container
  job_silent :: bool
  job_lookups :: "lookup option"
  job_callback :: slot

datatype pref_value = PBool bool | PStr string

text \<open>\<^verbatim>\<open>os.path.join(a, b)\<close>, kept symbolic.\<close>

datatype path = PathJoin string string

datatype signal = ContainerAdded | PluginsLoaded | Finished job

text \<open>
  The calls into the host. \<open>OpenUrl url ok\<close> is a call of
  \<^verbatim>\<open>QDesktopServices.openUrl(QUrl(url))\<close> that returned \<open>ok\<close>;
  \<open>LoadLookup p\<close> is the construction of the lookup from the file at \<open>p\<close>.
\<close>

datatype effect =
    AddPreference string pref_value
  | Connect signal slot
  | LoadLookup path
  | OpenUrl string bool
  | Log string string
  | JobStart job

datatype error = AttributeError string

datatype outcome = Returned | Raised error

text \<open>
  What the extension obtains from its surroundings: the value the preference store
  returns for \<^verbatim>\<open>info/automatic_update_check\<close> at construction (its truth value), the plugin
  path, the lookup constructor, the key function and the action constant of the two
  sibling modules that are not among the sources, and the answer of the desktop to
  \<^verbatim>\<open>openUrl\<close>.
\<close>

record environment =
  automatic_update_check :: bool
  getPluginPath :: "string \<Rightarrow> string"
  FirmwareUpdateCheckerLookup :: "path \<Rightarrow> lookup"
  getSettingsKeyForMachine :: "machine_id \<Rightarrow> string"
  STR_ACTION_DOWNLOAD :: string
  openUrl :: "string \<Rightarrow> bool"

subsection \<open>The extension object and the host trace\<close>

record FirmwareUpdateChecker =
  download_url :: "string option"
  check_job :: "job option"
  checked_printer_names :: "string set"
  lookups :: "lookup option"

record state =
  self :: FirmwareUpdateChecker
  host :: "effect list"

definition emit :: "effect list \<Rightarrow> state \<Rightarrow> state" where
  "emit es s = s\<lparr>host := host s @ es\<rparr>"

subsection \<open>The methods\<close>

text \<open>\<^verbatim>\<open>__init__\<close>, lines 32-46.\<close>

definition init :: "environment \<Rightarrow> state" where
  "init env =
     \<lparr>self = \<lparr>download_url = None, check_job = None, checked_printer_names = {},
              lookups = None\<rparr>,
      host = [AddPreference ''info/automatic_update_check'' (PBool True)]
             @ (if automatic_update_check env
                then [Connect ContainerAdded Slot_onContainerAdded] else [])
             @ [Connect PluginsLoaded Slot_onPluginsLoaded]\<rparr>"

text \<open>\<^verbatim>\<open>_onActionTriggered\<close>, lines 49-59.\<close>

definition onActionTriggered :: "environment \<Rightarrow> state \<Rightarrow> message \<Rightarrow> string \<Rightarrow> outcome \<times> state" where
  "onActionTriggered env s msg action =
     (if action = STR_ACTION_DOWNLOAD env then
        let machine_id = getMachineId msg in
        case lookups (self s) of
          None \<Rightarrow> (Raised (AttributeError ''getRedirectUserFor''), s)
        | Some l \<Rightarrow>
            (case getRedirectUserFor l machine_id of
               Some url \<Rightarrow>
                 if openUrl env url
                 then (Returned, emit [OpenUrl url True,
                         Log ''i'' (''Redirected browser to '' @ url
                                    @ '' to show newly available firmware.'')] s)
                 else (Returned, emit [OpenUrl url False,
                         Log ''e'' (''Can'' @ [CHR 0x27] @ ''t reach URL: '' @ url)] s)
             | None \<Rightarrow>
                 (Returned, emit [Log ''e'' (''Can'' @ [CHR 0x27] @ ''t find URL for ''
                                            @ machine_id)] s))
      else (Returned, s))"

text \<open>\<^verbatim>\<open>_onJobFinished\<close>, lines 66-67.\<close>

definition onJobFinished :: "state \<Rightarrow> outcome \<times> state" where
  "onJobFinished s = (Returned, s\<lparr>self := (self s)\<lparr>check_job := None\<rparr>\<rparr>)"

text \<open>\<^verbatim>\<open>_onPluginsLoaded\<close>, lines 69-79.\<close>

definition onPluginsLoaded :: "environment \<Rightarrow> state \<Rightarrow> outcome \<times> state" where
  "onPluginsLoaded env s =
     (if lookups (self s) \<noteq> None then (Returned, s)
      else
        let p = PathJoin (getPluginPath env ''FirmwareUpdateChecker'')
                         ''resources/machines.json'';
            l = FirmwareUpdateCheckerLookup env p;
            s1 = emit [LoadLookup p] (s\<lparr>self := (self s)\<lparr>lookups := Some l\<rparr>\<rparr>)
        in (Returned,
            emit (map (\<lambda>machine_id.
                         AddPreference (getSettingsKeyForMachine env machine_id) (PStr ''''))
                      (getMachineIds l)) s1))"

text \<open>
  \<^verbatim>\<open>checkFirmwareVersion\<close>, lines 87-100. The parameter \<^verbatim>\<open>container\<close> defaults to
  \<^verbatim>\<open>None\<close>, on which reading \<^verbatim>\<open>.definition\<close> raises.
\<close>

definition checkFirmwareVersion ::
  "environment \<Rightarrow> state \<Rightarrow> container option \<Rightarrow> bool \<Rightarrow> outcome \<times> state" where
  "checkFirmwareVersion env s container silent =
     (let s1 = (if lookups (self s) = None then snd (onPluginsLoaded env s) else s) in
      case container of
        None \<Rightarrow> (Raised (AttributeError ''definition''), s1)
      | Some c \<Rightarrow>
          let container_name = definition_name c in
          if container_name \<in> checked_printer_names (self s1) then (Returned, s1)
          else
            let s2 = s1\<lparr>self := (self s1)\<lparr>checked_printer_names :=
                          insert container_name (checked_printer_names (self s1))\<rparr>\<rparr>;
                j = \<lparr>job_container = c, job_silent = silent,
                     job_lookups = lookups (self s2),
                     job_callback = Slot_onActionTriggered\<rparr>;
                s3 = s2\<lparr>self := (self s2)\<lparr>check_job := Some j\<rparr>\<rparr>
            in (Returned, emit [JobStart j, Connect (Finished j) Slot_onJobFinished] s3))"

text \<open>\<^verbatim>\<open>_onContainerAdded\<close>, lines 61-64.\<close>

definition onContainerAdded :: "environment \<Rightarrow> state \<Rightarrow> container \<Rightarrow> outcome \<times> state" where
  "onContainerAdded env s c =
     (if is_GlobalStack c then checkFirmwareVersion env s (Some c) True
      else (Returned, s))"

subsection \<open>The process: signals reach the slots connected to them\<close>

text \<open>
  What can happen to the extension after construction: the host emits one of the signals
  (and the slot runs if it was connected), the user triggers an action of a message, or
  some caller invokes the public method \<^verbatim>\<open>checkFirmwareVersion\<close>.
\<close>

datatype event =
    EmitContainerAdded container
  | EmitPluginsLoaded
  | EmitFinished job
  | ActionTriggered message string
  | CallCheckFirmwareVersion "container option" bool

definition connected :: "signal \<Rightarrow> slot \<Rightarrow> state \<Rightarrow> bool" where
  "connected sig sl s = (Connect sig sl \<in> set (host s))"

fun step :: "environment \<Rightarrow> state \<Rightarrow> event \<Rightarrow> outcome \<times> state" where
  "step env s (EmitContainerAdded c) =
     (if connected ContainerAdded Slot_onContainerAdded s then onContainerAdded env s c
      else (Returned, s))"
| "step env s EmitPluginsLoaded =
     (if connected PluginsLoaded Slot_onPluginsLoaded s then onPluginsLoaded env s
      else (Returned, s))"
| "step env s (EmitFinished j) =
     (if connected (Finished j) Slot_onJobFinished s then onJobFinished s
      else (Returned, s))"
| "step env s (ActionTriggered msg action) = onActionTriggered env s msg action"
| "step env s (CallCheckFirmwareVersion container silent) =
     checkFirmwareVersion env s container silent"

text \<open>
  A run of the process; an exception raised by a slot ends that slot only, the state it
  left stays.
\<close>

fun run :: "environment \<Rightarrow> state \<Rightarrow> event list \<Rightarrow> state" where
  "run env s [] = s"
| "run env s (e # es) = run env (snd (step env s e)) es"

subsection \<open>Observations on the host trace\<close>

text \<open>The jobs started, the files loaded, the preferences registered, the lines logged.\<close>

fun started_jobs :: "effect list \<Rightarrow> job list" where
  "started_jobs [] = []"
| "started_jobs (JobStart j # es) = j # started_jobs es"
| "started_jobs (e # es) = started_jobs es"

fun loaded_files :: "effect list \<Rightarrow> path list" where
  "loaded_files [] = []"
| "loaded_files (LoadLookup p # es) = p # loaded_files es"
| "loaded_files (e # es) = loaded_files es"

fun registered :: "effect list \<Rightarrow> (string \<times> pref_value) list" where
  "registered [] = []"
| "registered (AddPreference k v # es) = (k, v) # registered es"
| "registered (e # es) = registered es"

fun opened :: "effect list \<Rightarrow> (string \<times> bool) list" where
  "opened [] = []"
| "opened (OpenUrl url ok # es) = (url, ok) # opened es"
| "opened (e # es) = opened es"

fun logged :: "effect list \<Rightarrow> (string \<times> string) list" where
  "logged [] = []"
| "logged (Log lvl m # es) = (lvl, m) # logged es"
| "logged (e # es) = logged es"

subsection \<open>A concrete installation\<close>

definition example_lookup :: lookup where
  "example_lookup =
     \<lparr>table = [(''um3'', \<lparr>latest_version = ''5.2.11'', redirect_url = ''https://example.org/um3''\<rparr>),
               (''ums5'', \<lparr>latest_version = ''5.2.11'', redirect_url = ''https://example.org/ums5''\<rparr>)]\<rparr>"

definition example_environment :: environment where
  "example_environment =
     \<lparr>automatic_update_check = True,
      getPluginPath = (\<lambda>plugin_id. ''/plugins/'' @ plugin_id),
      FirmwareUpdateCheckerLookup = (\<lambda>p. example_lookup),
      getSettingsKeyForMachine = (\<lambda>machine_id. ''info/latest_checked_firmware_for_'' @ machine_id),
      STR_ACTION_DOWNLOAD = ''download'',
      openUrl = (\<lambda>url. url = ''https://example.org/um3'')\<rparr>"

definition printer_a :: container where
  "printer_a = \<lparr>container_id = ''printer_a'', is_GlobalStack = True,
                 definition_name = ''Ultimaker 3''\<rparr>"

definition printer_b :: container where
  "printer_b = \<lparr>container_id = ''printer_b'', is_GlobalStack = True,
                 definition_name = ''Ultimaker 3''\<rparr>"

definition extruder_a :: container where
  "extruder_a = \<lparr>container_id = ''extruder_a'', is_GlobalStack = False,
                  definition_name = ''Extruder''\<rparr>"

section \<open>Properties\<close>

lemmas method_defs = init_def checkFirmwareVersion_def onPluginsLoaded_def onContainerAdded_def
  onActionTriggered_def onJobFinished_def emit_def connected_def getMachineIds_def
  getRedirectUserFor_def Let_def
lemmas example_defs = example_environment_def example_lookup_def printer_a_def printer_b_def
  extruder_a_def

subsection \<open>The observations distribute over the trace\<close>

lemma started_jobs_append: "started_jobs (xs @ ys) = started_jobs xs @ started_jobs ys"
  by (induction xs rule: started_jobs.induct) simp_all

lemma loaded_files_append: "loaded_files (xs @ ys) = loaded_files xs @ loaded_files ys"
  by (induction xs rule: loaded_files.induct) simp_all

lemma registered_append: "registered (xs @ ys) = registered xs @ registered ys"
  by (induction xs rule: registered.induct) simp_all

lemma logged_append: "logged (xs @ ys) = logged xs @ logged ys"
  by (induction xs rule: logged.induct) simp_all

lemma opened_append: "opened (xs @ ys) = opened xs @ opened ys"
  by (induction xs rule: opened.induct) simp_all

lemma started_jobs_AddPreference: "started_jobs (map (\<lambda>m. AddPreference (f m) v) ms) = []"
  by (induction ms) simp_all

lemma loaded_files_AddPreference: "loaded_files (map (\<lambda>m. AddPreference (f m) v) ms) = []"
  by (induction ms) simp_all

lemma logged_AddPreference: "logged (map (\<lambda>m. AddPreference (f m) v) ms) = []"
  by (induction ms) simp_all

lemma registered_AddPreference:
  "registered (map (\<lambda>m. AddPreference (f m) v) ms) = map (\<lambda>m. (f m, v)) ms"
  by (induction ms) simp_all

lemma onPluginsLoaded_loaded:
  "lookups (self s) \<noteq> None \<Longrightarrow> onPluginsLoaded env s = (Returned, s)"
  by (simp add: onPluginsLoaded_def)

lemma onPluginsLoaded_sets_lookups:
  "lookups (self (snd (onPluginsLoaded env s))) \<noteq> None"
  by (auto simp: onPluginsLoaded_def Let_def emit_def)

lemma onPluginsLoaded_checked:
  "checked_printer_names (self (snd (onPluginsLoaded env s))) = checked_printer_names (self s)"
  by (simp add: onPluginsLoaded_def Let_def emit_def)

lemma onPluginsLoaded_check_job:
  "check_job (self (snd (onPluginsLoaded env s))) = check_job (self s)"
  by (simp add: onPluginsLoaded_def Let_def emit_def)

lemma onPluginsLoaded_started:
  "started_jobs (host (snd (onPluginsLoaded env s))) = started_jobs (host s)"
  by (simp add: onPluginsLoaded_def Let_def emit_def started_jobs_append started_jobs_AddPreference)

lemma onPluginsLoaded_logged:
  "logged (host (snd (onPluginsLoaded env s))) = logged (host s)"
  by (simp add: onPluginsLoaded_def Let_def emit_def logged_append logged_AddPreference)

subsection \<open>The checked-set and the lookup table along a run\<close>

lemma checkFirmwareVersion_sets_lookups:
  "lookups (self (snd (checkFirmwareVersion env s container silent))) \<noteq> None"
  using onPluginsLoaded_sets_lookups [of env s]
  by (auto simp: checkFirmwareVersion_def Let_def emit_def split: option.splits)

lemma onActionTriggered_self: "self (snd (onActionTriggered env s msg action)) = self s"
  by (simp add: onActionTriggered_def Let_def emit_def split: option.splits)

lemma checkFirmwareVersion_checked_mono:
  "checked_printer_names (self s)
     \<subseteq> checked_printer_names (self (snd (checkFirmwareVersion env s container silent)))"
  by (auto simp: checkFirmwareVersion_def Let_def emit_def onPluginsLoaded_checked
      split: option.splits)

lemma step_checked_mono:
  "checked_printer_names (self s) \<subseteq> checked_printer_names (self (snd (step env s e)))"
proof (cases e)
  case (EmitContainerAdded c)
  then show ?thesis
    using checkFirmwareVersion_checked_mono [of s env "Some c" True]
    by (simp add: onContainerAdded_def)
next
  case EmitPluginsLoaded
  then show ?thesis by (simp add: onPluginsLoaded_checked)
next
  case (EmitFinished j)
  then show ?thesis by (simp add: onJobFinished_def)
next
  case (ActionTriggered msg action)
  then show ?thesis by (simp add: onActionTriggered_self)
next
  case (CallCheckFirmwareVersion container silent)
  then show ?thesis by (simp add: checkFirmwareVersion_checked_mono)
qed

lemma run_append: "run env s (evs @ evs') = run env (run env s evs) evs'"
  by (induction evs arbitrary: s) simp_all

lemma run_checked_mono:
  "checked_printer_names (self s) \<subseteq> checked_printer_names (self (run env s evs))"
proof (induction evs arbitrary: s)
  case Nil
  show ?case by simp
next
  case (Cons e evs)
  have "checked_printer_names (self s) \<subseteq> checked_printer_names (self (snd (step env s e)))"
    by (rule step_checked_mono)
  also have "\<dots> \<subseteq> checked_printer_names (self (run env (snd (step env s e)) evs))"
    by (rule Cons.IH)
  finally show ?case by simp
qed

text \<open>The names are checked only once the table is loaded.\<close>

lemma checkFirmwareVersion_checked_loaded:
  "checked_printer_names (self s) = {} \<or> lookups (self s) \<noteq> None \<Longrightarrow>
   checked_printer_names (self (snd (checkFirmwareVersion env s container silent))) = {}
   \<or> lookups (self (snd (checkFirmwareVersion env s container silent))) \<noteq> None"
  using checkFirmwareVersion_sets_lookups [of env s container silent] by blast

lemma step_checked_loaded:
  assumes "checked_printer_names (self s) = {} \<or> lookups (self s) \<noteq> None"
  shows "checked_printer_names (self (snd (step env s e))) = {}
       \<or> lookups (self (snd (step env s e))) \<noteq> None"
proof (cases e)
  case (EmitContainerAdded c)
  then show ?thesis
    using assms checkFirmwareVersion_sets_lookups [of env s "Some c" True]
    by (auto simp: onContainerAdded_def)
next
  case EmitPluginsLoaded
  then show ?thesis
    using assms onPluginsLoaded_sets_lookups [of env s] by auto
next
  case (EmitFinished j)
  then show ?thesis using assms by (auto simp: onJobFinished_def)
next
  case (ActionTriggered msg action)
  then show ?thesis using assms by (simp add: onActionTriggered_self)
next
  case (CallCheckFirmwareVersion container silent)
  then show ?thesis
    using checkFirmwareVersion_sets_lookups [of env s container silent] by simp
qed

lemma run_checked_loaded:
  "checked_printer_names (self s) = {} \<or> lookups (self s) \<noteq> None \<Longrightarrow>
   checked_printer_names (self (run env s evs)) = {} \<or> lookups (self (run env s evs)) \<noteq> None"
proof (induction evs arbitrary: s)
  case Nil
  then show ?case by simp
next
  case (Cons e evs)
  have "checked_printer_names (self (snd (step env s e))) = {}
        \<or> lookups (self (snd (step env s e))) \<noteq> None"
    by (rule step_checked_loaded [OF Cons.prems])
  from Cons.IH [OF this] show ?case by simp
qed

lemma reachable_checked_loaded:
  "checked_printer_names (self (run env (init env) evs)) = {}
   \<or> lookups (self (run env (init env) evs)) \<noteq> None"
  by (rule run_checked_loaded) (simp add: init_def)

subsection \<open>Duplicate checks\<close>

text \<open>
  Claim C1. In every state the process can reach, a call of \<^verbatim>\<open>checkFirmwareVersion\<close> with
  a container whose definition name is already in the checked-set returns normally and
  leaves the whole state as it was: the checked-set, the lookup table, the download URL
  and the job reference of the extension, and the trace of host calls, so no job is
  created or started.
\<close>
theorem checkFirmwareVersion_duplicate:
  assumes "definition_name c \<in> checked_printer_names (self (run env (init env) evs))"
  shows "checkFirmwareVersion env (run env (init env) evs) (Some c) silent
         = (Returned, run env (init env) evs)"
proof -
  from assms reachable_checked_loaded [of env evs]
  have "lookups (self (run env (init env) evs)) \<noteq> None" by auto
  with assms show ?thesis by (auto simp: checkFirmwareVersion_def)
qed

theorem checkFirmwareVersion_duplicate_witness:
  "definition_name printer_a
     \<in> checked_printer_names (self (run example_environment (init example_environment)
           [CallCheckFirmwareVersion (Some printer_a) False]))
   \<and> checkFirmwareVersion example_environment
        (run example_environment (init example_environment)
           [CallCheckFirmwareVersion (Some printer_a) False]) (Some printer_a) False
      = (Returned, run example_environment (init example_environment)
           [CallCheckFirmwareVersion (Some printer_a) False])"
proof -
  have h: "definition_name printer_a
     \<in> checked_printer_names (self (run example_environment (init example_environment)
           [CallCheckFirmwareVersion (Some printer_a) False]))"
    by (simp add: method_defs example_defs)
  from h checkFirmwareVersion_duplicate [OF h] show ?thesis by simp
qed

text \<open>
  Claim C2. A call of \<^verbatim>\<open>checkFirmwareVersion\<close> with a container whose definition name is
  not in the checked-set returns normally, adds the name to the checked-set, builds one
  job from the container, the flag and the lookup table, stores it as the current job
  reference, and starts exactly that one job.
\<close>
theorem checkFirmwareVersion_new_name:
  assumes "definition_name c \<notin> checked_printer_names (self s)"
  shows "let r = checkFirmwareVersion env s (Some c) silent;
             j = \<lparr>job_container = c, job_silent = silent,
                  job_lookups = lookups (self (snd r)), job_callback = Slot_onActionTriggered\<rparr>
         in fst r = Returned
          \<and> checked_printer_names (self (snd r))
              = insert (definition_name c) (checked_printer_names (self s))
          \<and> check_job (self (snd r)) = Some j
          \<and> started_jobs (host (snd r)) = started_jobs (host s) @ [j]"
  using assms
  by (simp add: checkFirmwareVersion_def Let_def emit_def started_jobs_append
      onPluginsLoaded_checked onPluginsLoaded_started)


theorem checkFirmwareVersion_new_name_witness:
  "definition_name printer_a \<notin> checked_printer_names (self (init example_environment))
   \<and> (let r = checkFirmwareVersion example_environment (init example_environment)
                (Some printer_a) False;
           j = \<lparr>job_container = printer_a, job_silent = False,
                job_lookups = lookups (self (snd r)), job_callback = Slot_onActionTriggered\<rparr>
       in fst r = Returned
        \<and> checked_printer_names (self (snd r))
            = insert (definition_name printer_a)
                (checked_printer_names (self (init example_environment)))
        \<and> check_job (self (snd r)) = Some j
        \<and> started_jobs (host (snd r)) = started_jobs (host (init example_environment)) @ [j])"
proof -
  have h: "definition_name printer_a
            \<notin> checked_printer_names (self (init example_environment))"
    by (simp add: init_def)
  from h checkFirmwareVersion_new_name [OF h] show ?thesis by simp
qed

subsection \<open>Loading the lookup table\<close>

lemma onPluginsLoaded_loaded_files:
  "loaded_files (host (snd (onPluginsLoaded env s)))
   = loaded_files (host s)
     @ (if lookups (self s) = None
        then [PathJoin (getPluginPath env ''FirmwareUpdateChecker'') ''resources/machines.json'']
        else [])"
  by (auto simp: onPluginsLoaded_def Let_def emit_def loaded_files_append
      loaded_files_AddPreference)

lemma checkFirmwareVersion_loaded_files:
  "loaded_files (host (snd (checkFirmwareVersion env s container silent)))
   = loaded_files (host s)
     @ (if lookups (self s) = None
        then [PathJoin (getPluginPath env ''FirmwareUpdateChecker'') ''resources/machines.json'']
        else [])"
  by (auto simp: checkFirmwareVersion_def Let_def emit_def loaded_files_append
      onPluginsLoaded_loaded_files split: option.splits)

lemma onActionTriggered_loaded_files:
  "loaded_files (host (snd (onActionTriggered env s msg action))) = loaded_files (host s)"
  by (simp add: onActionTriggered_def Let_def emit_def loaded_files_append split: option.splits)

lemma step_loaded_files:
  "loaded_files (host (snd (step env s e)))
   = loaded_files (host s)
   \<or> lookups (self s) = None
     \<and> lookups (self (snd (step env s e))) \<noteq> None
     \<and> loaded_files (host (snd (step env s e)))
       = loaded_files (host s)
         @ [PathJoin (getPluginPath env ''FirmwareUpdateChecker'') ''resources/machines.json'']"
proof (cases e)
  case (EmitContainerAdded c)
  then show ?thesis
    using checkFirmwareVersion_sets_lookups [of env s "Some c" True]
    by (auto simp: onContainerAdded_def checkFirmwareVersion_loaded_files)
next
  case EmitPluginsLoaded
  then show ?thesis
    using onPluginsLoaded_sets_lookups [of env s]
    by (auto simp: onPluginsLoaded_loaded_files)
next
  case (EmitFinished j)
  then show ?thesis by (simp add: onJobFinished_def)
next
  case (ActionTriggered msg action)
  then show ?thesis by (simp add: onActionTriggered_loaded_files)
next
  case (CallCheckFirmwareVersion container silent)
  then show ?thesis
    using checkFirmwareVersion_sets_lookups [of env s container silent]
    by (auto simp: checkFirmwareVersion_loaded_files)
qed

lemma onPluginsLoaded_lookups_stay:
  "lookups (self s) = Some l \<Longrightarrow> lookups (self (snd (onPluginsLoaded env s))) = Some l"
  by (simp add: onPluginsLoaded_def)

lemma checkFirmwareVersion_lookups_stay:
  "lookups (self s) = Some l \<Longrightarrow>
   lookups (self (snd (checkFirmwareVersion env s container silent))) = Some l"
  by (simp add: checkFirmwareVersion_def Let_def emit_def split: option.splits)

lemma step_lookups_stay:
  assumes "lookups (self s) = Some l"
  shows "lookups (self (snd (step env s e))) = Some l"
proof (cases e)
  case (EmitContainerAdded c)
  then show ?thesis using assms
    by (simp add: onContainerAdded_def checkFirmwareVersion_lookups_stay)
next
  case EmitPluginsLoaded
  then show ?thesis using assms by (simp add: onPluginsLoaded_lookups_stay)
next
  case (EmitFinished j)
  then show ?thesis using assms by (simp add: onJobFinished_def)
next
  case (ActionTriggered msg action)
  then show ?thesis using assms by (simp add: onActionTriggered_self)
next
  case (CallCheckFirmwareVersion container silent)
  then show ?thesis using assms by (simp add: checkFirmwareVersion_lookups_stay)
qed

lemma run_lookups_stay:
  "lookups (self s) = Some l \<Longrightarrow> lookups (self (run env s evs)) = Some l"
proof (induction evs arbitrary: s)
  case Nil
  then show ?case by simp
next
  case (Cons e evs)
  from step_lookups_stay [OF Cons.prems] have "lookups (self (snd (step env s e))) = Some l" .
  from Cons.IH [OF this] show ?case by simp
qed

lemma step_loaded_once:
  assumes "length (loaded_files (host s)) \<le> 1"
    and "lookups (self s) = None \<longrightarrow> loaded_files (host s) = []"
  shows "length (loaded_files (host (snd (step env s e)))) \<le> 1
       \<and> (lookups (self (snd (step env s e))) = None
          \<longrightarrow> loaded_files (host (snd (step env s e))) = [])"
proof (cases "lookups (self s)")
  case None
  with assms step_loaded_files [of env s e] show ?thesis by auto
next
  case (Some l)
  from step_lookups_stay [OF Some, of env e] Some assms step_loaded_files [of env s e]
  show ?thesis by auto
qed

lemma run_loaded_once:
  "length (loaded_files (host s)) \<le> 1 \<Longrightarrow>
   lookups (self s) = None \<longrightarrow> loaded_files (host s) = [] \<Longrightarrow>
   length (loaded_files (host (run env s evs))) \<le> 1"
proof (induction evs arbitrary: s)
  case Nil
  then show ?case by simp
next
  case (Cons e evs)
  from step_loaded_once [OF Cons.prems, of env e] Cons.IH [of "snd (step env s e)"]
  show ?case by simp
qed

text \<open>
  Claim C3. Loading the lookup table is idempotent. Once the table is set, an invocation
  of \<^verbatim>\<open>_onPluginsLoaded\<close> returns with the state untouched (no file read, no table
  replaced, no preference registered), and the table stays the same through whatever the
  process does later; invoking \<^verbatim>\<open>_onPluginsLoaded\<close> twice is invoking it once; and in
  every run of the process from construction the resource file is loaded at most once.
\<close>
theorem onPluginsLoaded_once:
  "(lookups (self s) \<noteq> None \<longrightarrow>
      onPluginsLoaded env s = (Returned, s)
      \<and> lookups (self (run env s evs)) = lookups (self s))
   \<and> onPluginsLoaded env (snd (onPluginsLoaded env s)) = (Returned, snd (onPluginsLoaded env s))
   \<and> length (loaded_files (host (run env (init env) evs'))) \<le> 1"
proof (intro conjI impI)
  assume "lookups (self s) \<noteq> None"
  then show "onPluginsLoaded env s = (Returned, s)" by (rule onPluginsLoaded_loaded)
next
  assume "lookups (self s) \<noteq> None"
  then obtain l where "lookups (self s) = Some l" by auto
  with run_lookups_stay [of s l env evs]
  show "lookups (self (run env s evs)) = lookups (self s)" by simp
next
  show "onPluginsLoaded env (snd (onPluginsLoaded env s))
        = (Returned, snd (onPluginsLoaded env s))"
    by (rule onPluginsLoaded_loaded) (rule onPluginsLoaded_sets_lookups)
next
  show "length (loaded_files (host (run env (init env) evs'))) \<le> 1"
    by (rule run_loaded_once) (simp_all add: init_def)
qed

theorem onPluginsLoaded_once_witness:
  "lookups (self (snd (onPluginsLoaded example_environment (init example_environment))))
     \<noteq> None
   \<and> onPluginsLoaded example_environment
        (snd (onPluginsLoaded example_environment (init example_environment)))
      = (Returned, snd (onPluginsLoaded example_environment (init example_environment)))
   \<and> lookups (self (run example_environment
        (snd (onPluginsLoaded example_environment (init example_environment)))
        [EmitPluginsLoaded, CallCheckFirmwareVersion (Some printer_a) True]))
      = lookups (self (snd (onPluginsLoaded example_environment (init example_environment))))
   \<and> length (loaded_files (host (run example_environment (init example_environment)
        [EmitPluginsLoaded, EmitPluginsLoaded]))) \<le> 1"
proof -
  have h: "lookups (self (snd (onPluginsLoaded example_environment
             (init example_environment)))) \<noteq> None"
    by (simp add: method_defs)
  from h onPluginsLoaded_once
         [of "snd (onPluginsLoaded example_environment (init example_environment))"
             example_environment
             "[EmitPluginsLoaded, CallCheckFirmwareVersion (Some printer_a) True]"
             "[EmitPluginsLoaded, EmitPluginsLoaded]"]
  show ?thesis by blast
qed

subsection \<open>The notification action\<close>

text \<open>
  Claim C4. In the notification-action callback, on the download action with the table
  loaded: when the lookup has no URL for the machine id of the message, or when the
  desktop fails to open the URL, the callback returns normally (no exception), the
  extension object is unchanged, and the host sees nothing but the failed attempt to
  open the URL (in the second case) followed by one line logged at level \<open>e\<close>.
\<close>
theorem onActionTriggered_failure_logged:
  assumes "action = STR_ACTION_DOWNLOAD env"
    and "lookups (self s) = Some l"
    and "getRedirectUserFor l (getMachineId msg) = None
         \<or> (\<exists>url. getRedirectUserFor l (getMachineId msg) = Some url \<and> \<not> openUrl env url)"
  shows "let r = onActionTriggered env s msg action in
         fst r = Returned
         \<and> self (snd r) = self s
         \<and> (\<exists>m. host (snd r)
                  = host s
                    @ (case getRedirectUserFor l (getMachineId msg) of
                         None \<Rightarrow> [] | Some url \<Rightarrow> [OpenUrl url False])
                    @ [Log ''e'' m])"
  using assms
  by (auto simp: onActionTriggered_def Let_def emit_def)

theorem onActionTriggered_failure_logged_witness:
  "(let r = onActionTriggered example_environment
              (snd (onPluginsLoaded example_environment (init example_environment)))
              \<lparr>getMachineId = ''ums5''\<rparr> ''download'' in
    fst r = Returned
    \<and> self (snd r)
      = self (snd (onPluginsLoaded example_environment (init example_environment)))
    \<and> (\<exists>m. host (snd r)
             = host (snd (onPluginsLoaded example_environment (init example_environment)))
               @ (case getRedirectUserFor example_lookup
                         (getMachineId \<lparr>getMachineId = ''ums5''\<rparr>) of
                    None \<Rightarrow> [] | Some url \<Rightarrow> [OpenUrl url False])
               @ [Log ''e'' m]))
   \<and> getRedirectUserFor example_lookup (getMachineId \<lparr>getMachineId = ''ums5''\<rparr>)
     = Some ''https://example.org/ums5''
   \<and> \<not> openUrl example_environment ''https://example.org/ums5''
   \<and> (let r = onActionTriggered example_environment
              (snd (onPluginsLoaded example_environment (init example_environment)))
              \<lparr>getMachineId = ''um2''\<rparr> ''download'' in
    fst r = Returned
    \<and> self (snd r)
      = self (snd (onPluginsLoaded example_environment (init example_environment)))
    \<and> (\<exists>m. host (snd r)
             = host (snd (onPluginsLoaded example_environment (init example_environment)))
               @ (case getRedirectUserFor example_lookup
                         (getMachineId \<lparr>getMachineId = ''um2''\<rparr>) of
                    None \<Rightarrow> [] | Some url \<Rightarrow> [OpenUrl url False])
               @ [Log ''e'' m]))
   \<and> getRedirectUserFor example_lookup (getMachineId \<lparr>getMachineId = ''um2''\<rparr>) = None"
proof -
  have a: "''download'' = STR_ACTION_DOWNLOAD example_environment"
    by (simp add: example_environment_def)
  have b: "lookups (self (snd (onPluginsLoaded example_environment
             (init example_environment)))) = Some example_lookup"
    by (simp add: method_defs example_environment_def)
  have c: "getRedirectUserFor example_lookup (getMachineId \<lparr>getMachineId = ''ums5''\<rparr>)
           = Some ''https://example.org/ums5''"
    by (simp add: getRedirectUserFor_def example_lookup_def)
  have d: "\<not> openUrl example_environment ''https://example.org/ums5''"
    by (simp add: example_environment_def)
  from c d have e: "getRedirectUserFor example_lookup (getMachineId \<lparr>getMachineId = ''ums5''\<rparr>) = None
         \<or> (\<exists>url. getRedirectUserFor example_lookup (getMachineId \<lparr>getMachineId = ''ums5''\<rparr>)
                   = Some url \<and> \<not> openUrl example_environment url)"
    by blast
  have f: "getRedirectUserFor example_lookup (getMachineId \<lparr>getMachineId = ''um2''\<rparr>) = None"
    by (simp add: getRedirectUserFor_def example_lookup_def)
  then have g: "getRedirectUserFor example_lookup (getMachineId \<lparr>getMachineId = ''um2''\<rparr>) = None
         \<or> (\<exists>url. getRedirectUserFor example_lookup (getMachineId \<lparr>getMachineId = ''um2''\<rparr>)
                   = Some url \<and> \<not> openUrl example_environment url)"
    by blast
  from onActionTriggered_failure_logged [OF a b e]
       onActionTriggered_failure_logged [OF a b g] c d f
  show ?thesis by blast
qed

text \<open>
  Claim C5. On the download action, when the table has a redirect URL for the machine id
  of the message, the callback returns normally and asks the desktop exactly once to
  open that URL.
\<close>
theorem onActionTriggered_opens_url:
  assumes "action = STR_ACTION_DOWNLOAD env"
    and "lookups (self s) = Some l"
    and "getRedirectUserFor l (getMachineId msg) = Some url"
  shows "let r = onActionTriggered env s msg action in
         fst r = Returned
         \<and> opened (host (snd r)) = opened (host s) @ [(url, openUrl env url)]"
  using assms
  by (simp add: onActionTriggered_def Let_def emit_def opened_append)

theorem onActionTriggered_opens_url_witness:
  "(let r = onActionTriggered example_environment
              (snd (onPluginsLoaded example_environment (init example_environment)))
              \<lparr>getMachineId = ''um3''\<rparr> ''download'' in
    fst r = Returned
    \<and> opened (host (snd r))
      = opened (host (snd (onPluginsLoaded example_environment (init example_environment))))
        @ [(''https://example.org/um3'',
            openUrl example_environment ''https://example.org/um3'')])
   \<and> openUrl example_environment ''https://example.org/um3''"
proof -
  have a: "''download'' = STR_ACTION_DOWNLOAD example_environment"
    by (simp add: example_environment_def)
  have b: "lookups (self (snd (onPluginsLoaded example_environment
             (init example_environment)))) = Some example_lookup"
    by (simp add: method_defs example_environment_def)
  have c: "getRedirectUserFor example_lookup (getMachineId \<lparr>getMachineId = ''um3''\<rparr>)
           = Some ''https://example.org/um3''"
    by (simp add: getRedirectUserFor_def example_lookup_def)
  have d: "openUrl example_environment ''https://example.org/um3''"
    by (simp add: example_environment_def)
  from onActionTriggered_opens_url [OF a b c] d show ?thesis by blast
qed

subsection \<open>Registering the preferences\<close>

text \<open>
  Claim C6. When the lookup table is first loaded, the preferences registered are, for
  each machine id of the table in turn, one registration of the key derived from that
  id with the empty string as its value, and nothing else.
\<close>
theorem onPluginsLoaded_registers_keys:
  assumes "lookups (self s) = None"
  shows "let l = FirmwareUpdateCheckerLookup env
                   (PathJoin (getPluginPath env ''FirmwareUpdateChecker'')
                      ''resources/machines.json'');
             s' = snd (onPluginsLoaded env s)
         in lookups (self s') = Some l
          \<and> registered (host s')
            = registered (host s)
              @ map (\<lambda>machine_id. (getSettingsKeyForMachine env machine_id, PStr ''''))
                  (getMachineIds l)"
  using assms
  by (simp add: onPluginsLoaded_def Let_def emit_def registered_append
      registered_AddPreference)

theorem onPluginsLoaded_registers_keys_witness:
  "lookups (self (init example_environment)) = None
   \<and> lookups (self (snd (onPluginsLoaded example_environment (init example_environment))))
     = Some example_lookup
   \<and> registered (host (snd (onPluginsLoaded example_environment (init example_environment))))
     = [(''info/automatic_update_check'', PBool True),
        (''info/latest_checked_firmware_for_um3'', PStr ''''),
        (''info/latest_checked_firmware_for_ums5'', PStr '''')]"
proof -
  have h: "lookups (self (init example_environment)) = None"
    by (simp add: init_def)
  from h onPluginsLoaded_registers_keys [OF h, of example_environment]
  show ?thesis
    by (simp add: Let_def init_def example_environment_def example_lookup_def
        getMachineIds_def)
qed

subsection \<open>Growth of the checked-set\<close>

text \<open>
  Claim C7. The checked-set is empty at construction; \<^verbatim>\<open>checkFirmwareVersion\<close> keeps every
  name that was in it, and so does every other operation of the extension; along any run
  of the process the set of a later state contains the set of an earlier one.
\<close>
theorem checked_printer_names_grow:
  "checked_printer_names (self (init env)) = {}
   \<and> checked_printer_names (self s)
       \<subseteq> checked_printer_names (self (snd (checkFirmwareVersion env s container silent)))
   \<and> checked_printer_names (self s) \<subseteq> checked_printer_names (self (snd (step env s e)))
   \<and> checked_printer_names (self (run env (init env) evs))
       \<subseteq> checked_printer_names (self (run env (init env) (evs @ evs')))"
proof (intro conjI)
  show "checked_printer_names (self (init env)) = {}" by (simp add: init_def)
  show "checked_printer_names (self s)
        \<subseteq> checked_printer_names (self (snd (checkFirmwareVersion env s container silent)))"
    by (rule checkFirmwareVersion_checked_mono)
  show "checked_printer_names (self s) \<subseteq> checked_printer_names (self (snd (step env s e)))"
    by (rule step_checked_mono)
  show "checked_printer_names (self (run env (init env) evs))
        \<subseteq> checked_printer_names (self (run env (init env) (evs @ evs')))"
    unfolding run_append by (rule run_checked_mono)
qed

subsection \<open>The default container\<close>

lemma checkFirmwareVersion_None_raises:
  "fst (checkFirmwareVersion env s None silent) = Raised (AttributeError ''definition'')"
  by (simp add: checkFirmwareVersion_def Let_def)

lemma checkFirmwareVersion_None_state:
  "snd (checkFirmwareVersion env s None silent)
   = (if lookups (self s) = None then snd (onPluginsLoaded env s) else s)"
  by (simp add: checkFirmwareVersion_def Let_def)

text \<open>
  Claim C8. Called with the default container \<^verbatim>\<open>None\<close>, \<^verbatim>\<open>checkFirmwareVersion\<close> raises
  an \<^verbatim>\<open>AttributeError\<close> where the definition is read: nothing is logged, no job is
  started or stored, and the checked-set stays as it was.
\<close>
theorem checkFirmwareVersion_without_container:
  "fst (checkFirmwareVersion env s None silent) = Raised (AttributeError ''definition'')
   \<and> logged (host (snd (checkFirmwareVersion env s None silent))) = logged (host s)
   \<and> started_jobs (host (snd (checkFirmwareVersion env s None silent))) = started_jobs (host s)
   \<and> checked_printer_names (self (snd (checkFirmwareVersion env s None silent)))
     = checked_printer_names (self s)
   \<and> check_job (self (snd (checkFirmwareVersion env s None silent))) = check_job (self s)"
  by (simp add: checkFirmwareVersion_None_raises checkFirmwareVersion_None_state
      onPluginsLoaded_logged onPluginsLoaded_started onPluginsLoaded_checked
      onPluginsLoaded_check_job)

subsection \<open>Automatic checks\<close>

lemma onPluginsLoaded_connected:
  "connected ContainerAdded sl (snd (onPluginsLoaded env s)) = connected ContainerAdded sl s"
  by (auto simp: onPluginsLoaded_def Let_def emit_def connected_def)

lemma checkFirmwareVersion_connected:
  "connected ContainerAdded sl (snd (checkFirmwareVersion env s container silent))
   = connected ContainerAdded sl s"
  using onPluginsLoaded_connected [of sl env s]
  by (auto simp: checkFirmwareVersion_def Let_def emit_def connected_def split: option.splits)

lemma onActionTriggered_connected:
  "connected ContainerAdded sl (snd (onActionTriggered env s msg action))
   = connected ContainerAdded sl s"
  by (auto simp: onActionTriggered_def Let_def emit_def connected_def split: option.splits)

lemma step_connected:
  "connected ContainerAdded sl (snd (step env s e)) = connected ContainerAdded sl s"
proof (cases e)
  case (EmitContainerAdded c)
  then show ?thesis
    by (simp add: onContainerAdded_def checkFirmwareVersion_connected)
next
  case EmitPluginsLoaded
  then show ?thesis by (simp add: onPluginsLoaded_connected)
next
  case (EmitFinished j)
  then show ?thesis by (simp add: onJobFinished_def connected_def)
next
  case (ActionTriggered msg action)
  then show ?thesis by (simp add: onActionTriggered_connected)
next
  case (CallCheckFirmwareVersion container silent)
  then show ?thesis by (simp add: checkFirmwareVersion_connected)
qed

lemma run_connected:
  "connected ContainerAdded sl (run env s evs) = connected ContainerAdded sl s"
  by (induction evs arbitrary: s) (simp_all add: step_connected)

lemma reachable_connected:
  "connected ContainerAdded Slot_onContainerAdded (run env (init env) evs)
   = automatic_update_check env"
  by (simp add: run_connected) (simp add: connected_def init_def)

lemma onActionTriggered_started:
  "started_jobs (host (snd (onActionTriggered env s msg action))) = started_jobs (host s)"
  by (simp add: onActionTriggered_def Let_def emit_def started_jobs_append split: option.splits)

text \<open>
  Claim C9. In every state the process can reach, a container-added signal runs
  \<^verbatim>\<open>checkFirmwareVersion\<close> (silently) exactly when the preference was enabled at
  construction and the container is a GlobalStack; otherwise it leaves the state
  untouched. The other signals and the action callback never start a job.
\<close>
theorem automatic_check_only_for_GlobalStack:
  "step env (run env (init env) evs) (EmitContainerAdded c)
   = (if automatic_update_check env \<and> is_GlobalStack c
      then checkFirmwareVersion env (run env (init env) evs) (Some c) True
      else (Returned, run env (init env) evs))
   \<and> started_jobs (host (snd (step env s EmitPluginsLoaded))) = started_jobs (host s)
   \<and> started_jobs (host (snd (step env s (EmitFinished j)))) = started_jobs (host s)
   \<and> started_jobs (host (snd (step env s (ActionTriggered msg action)))) = started_jobs (host s)"
  by (simp add: reachable_connected onContainerAdded_def onPluginsLoaded_started
      onActionTriggered_started onJobFinished_def)

subsection \<open>Suppression by definition name\<close>

lemma checkFirmwareVersion_fresh_checked:
  "definition_name c \<notin> checked_printer_names (self s) \<Longrightarrow>
   checked_printer_names (self (snd (checkFirmwareVersion env s (Some c) silent)))
   = insert (definition_name c) (checked_printer_names (self s))"
  by (simp add: checkFirmwareVersion_def Let_def emit_def onPluginsLoaded_checked)

lemma checkFirmwareVersion_fresh_started:
  "definition_name c \<notin> checked_printer_names (self s) \<Longrightarrow>
   started_jobs (host (snd (checkFirmwareVersion env s (Some c) silent)))
   = started_jobs (host s)
     @ [\<lparr>job_container = c, job_silent = silent,
          job_lookups = lookups (self (snd (checkFirmwareVersion env s (Some c) silent))),
          job_callback = Slot_onActionTriggered\<rparr>]"
  by (simp add: checkFirmwareVersion_def Let_def emit_def started_jobs_append
      onPluginsLoaded_checked onPluginsLoaded_started)

text \<open>
  Claim C10. Suppression is by definition name: for two different containers with the
  same definition name, not checked before, the first call of \<^verbatim>\<open>checkFirmwareVersion\<close>
  starts a job for the first container, and the second call returns with the state
  untouched, so no job is started for the second container.
\<close>
theorem duplicate_suppression_by_definition_name:
  assumes "c1 \<noteq> c2"
    and "definition_name c1 = definition_name c2"
    and "definition_name c1 \<notin> checked_printer_names (self s)"
  shows "let r1 = checkFirmwareVersion env s (Some c1) silent1;
             r2 = checkFirmwareVersion env (snd r1) (Some c2) silent2
         in started_jobs (host (snd r1))
            = started_jobs (host s)
              @ [\<lparr>job_container = c1, job_silent = silent1,
                   job_lookups = lookups (self (snd r1)),
                   job_callback = Slot_onActionTriggered\<rparr>]
          \<and> r2 = (Returned, snd r1)"
proof -
  let ?r1 = "checkFirmwareVersion env s (Some c1) silent1"
  have started: "started_jobs (host (snd ?r1))
            = started_jobs (host s)
              @ [\<lparr>job_container = c1, job_silent = silent1,
                   job_lookups = lookups (self (snd ?r1)),
                   job_callback = Slot_onActionTriggered\<rparr>]"
    by (rule checkFirmwareVersion_fresh_started [OF assms(3)])
  have checked: "checked_printer_names (self (snd ?r1))
                  = insert (definition_name c1) (checked_printer_names (self s))"
    by (rule checkFirmwareVersion_fresh_checked [OF assms(3)])
  have loaded: "lookups (self (snd ?r1)) \<noteq> None"
    by (rule checkFirmwareVersion_sets_lookups)
  from checked assms(2) have "definition_name c2 \<in> checked_printer_names (self (snd ?r1))"
    by simp
  with loaded have "checkFirmwareVersion env (snd ?r1) (Some c2) silent2 = (Returned, snd ?r1)"
    by (auto simp: checkFirmwareVersion_def)
  with started show ?thesis by (simp add: Let_def)
qed

theorem duplicate_suppression_by_definition_name_witness:
  "printer_a \<noteq> printer_b
   \<and> definition_name printer_a = definition_name printer_b
   \<and> definition_name printer_a \<notin> checked_printer_names (self (init example_environment))
   \<and> (let r1 = checkFirmwareVersion example_environment (init example_environment)
                 (Some printer_a) True;
           r2 = checkFirmwareVersion example_environment (snd r1) (Some printer_b) False
       in started_jobs (host (snd r1))
          = started_jobs (host (init example_environment))
            @ [\<lparr>job_container = printer_a, job_silent = True,
                 job_lookups = lookups (self (snd r1)),
                 job_callback = Slot_onActionTriggered\<rparr>]
        \<and> r2 = (Returned, snd r1))"
proof -
  have a: "printer_a \<noteq> printer_b" by (simp add: printer_a_def printer_b_def)
  have b: "definition_name printer_a = definition_name printer_b"
    by (simp add: printer_a_def printer_b_def)
  have c: "definition_name printer_a \<notin> checked_printer_names (self (init example_environment))"
    by (simp add: init_def)
  from a b c duplicate_suppression_by_definition_name [OF a b c] show ?thesis by blast
qed

end
